theory Spec2Isabelle
  imports Complex_Main
begin

section \<open>Documents and the store\<close>

text \<open>
  The backend keeps two collections, users (\<^verbatim>\<open>models/user.js\<close>) and chats
  (\<^verbatim>\<open>models/chat.js\<close>).  A collection is the list of its documents in the
  store's natural order; an ObjectId is a natural number; a date is the number of
  milliseconds since the epoch.  The numeric quotas are JavaScript numbers holding whole
  values; they are integers here, and arithmetic on them rounds as doubles do
  (\<open>toNumber\<close> below).  The
  \<^verbatim>\<open>createdAt\<close>/\<^verbatim>\<open>updatedAt\<close> stamps that the schema option
  \<^verbatim>\<open>timestamps\<close> adds are bookkeeping no route reads; they are left out.
\<close>

type_synonym oid = nat
type_synonym time = int

record user =
  uid :: oid
  email :: string
  password :: string
  username :: string
  name :: "string option"
  dob :: "time option"
  gender :: "string option"
  interestedIn :: "string option"
  bio :: string
  profilePicture :: "string option"
  university :: string
  swipeLimit :: int
  spinLimit :: int
  liked :: "oid list"
  disliked :: "oid list"
  matches :: "oid list"
  otp :: string
  status :: string
  isVerified :: bool
  pinnedMatches :: "oid list"
  lastLogin :: time

text \<open>The document the user schema builds from an id, the three required strings and
  the clock: every other path takes its schema default.\<close>

definition schemaDefaults :: "oid \<Rightarrow> string \<Rightarrow> string \<Rightarrow> string \<Rightarrow> time \<Rightarrow> user" where
  "schemaDefaults i e p n now =
     \<lparr>uid = i, email = e, password = p, username = n, name = None, dob = None,
      gender = None, interestedIn = None, bio = '''', profilePicture = Some '''',
      university = '''', swipeLimit = 10, spinLimit = 5, liked = [], disliked = [],
      matches = [], otp = '''', status = ''inactive'', isVerified = False,
      pinnedMatches = [], lastLogin = now\<rparr>"

text \<open>A message's content is a JavaScript string: a list of UTF-16 code units.\<close>

type_synonym jsstring = "nat list"

record chat_message =
  mid :: oid
  sender :: oid
  content :: jsstring
  createdAt :: time
  readBy :: "oid list"

record chat =
  cid :: oid
  participants :: "oid list"
  messages :: "chat_message list"
  lastMessageAt :: time

text \<open>An error response: the HTTP status and the text sent with it.\<close>

datatype error = Error (status_code: nat) (error_text: string)

subsection \<open>Numbers\<close>

text \<open>A stored number is a double.  Whole values up to \<open>2 ^ 53\<close> in magnitude are exact;
  beyond that only 53 significant bits are kept, and the exact result of an addition is
  rounded to the nearest such value, ties going to the even one (\<^verbatim>\<open>1e16 - 1\<close> is
  \<^verbatim>\<open>1e16\<close>).  \<open>bitlen n\<close> is the number of binary digits of \<open>n\<close>.  Infinities, NaN and
  fractions have no counterpart in the model, and a value beyond \<open>2 ^ 53\<close> is taken to be
  stored as a double, which is how the driver writes it.\<close>

fun bitlen :: "nat \<Rightarrow> nat" where
  "bitlen n = (if n = 0 then 0 else Suc (bitlen (n div 2)))"

declare bitlen.simps [simp del]

definition roundHalfEven :: "nat \<Rightarrow> nat \<Rightarrow> nat" where
  "roundHalfEven q n =
     (let m = n div q; r = n mod q
      in if 2 * r < q \<or> (2 * r = q \<and> even m) then m * q else (m + 1) * q)"

definition toNumber :: "int \<Rightarrow> int" where
  "toNumber x =
     (if \<bar>x\<bar> \<le> 2 ^ 53 then x
      else sgn x * int (roundHalfEven (2 ^ (bitlen (nat \<bar>x\<bar>) - 53)) (nat \<bar>x\<bar>)))"

subsection \<open>Queries and update operators\<close>

text \<open>\<^verbatim>\<open>findOne\<close> is \<^const>\<open>List.find\<close>: the first document that satisfies the
  filter, or nothing.  \<^verbatim>\<open>findOneAndUpdate\<close> changes that first document and
  leaves a collection without one as it is.\<close>

fun findOneAndUpdate :: "('a \<Rightarrow> bool) \<Rightarrow> ('a \<Rightarrow> 'a) \<Rightarrow> 'a list \<Rightarrow> 'a list" where
  "findOneAndUpdate P f [] = []"
| "findOneAndUpdate P f (d # ds) =
     (if P d then f d # ds else d # findOneAndUpdate P f ds)"

definition findById :: "user list \<Rightarrow> oid \<Rightarrow> user option" where
  "findById db i = List.find (\<lambda>u. uid u = i) db"

definition findByIdAndUpdate :: "user list \<Rightarrow> oid \<Rightarrow> (user \<Rightarrow> user) \<Rightarrow> user list" where
  "findByIdAndUpdate db i f = findOneAndUpdate (\<lambda>u. uid u = i) f db"

definition addToSet :: "'a list \<Rightarrow> 'a \<Rightarrow> 'a list" where
  "addToSet xs x = (if x \<in> set xs then xs else xs @ [x])"

definition pull :: "'a list \<Rightarrow> 'a \<Rightarrow> 'a list" where
  "pull xs x = filter (\<lambda>y. y \<noteq> x) xs"

text \<open>\<^verbatim>\<open>skip(s).limit(l)\<close> on a query result.  The store refuses a negative skip (the
  route's \<^verbatim>\<open>catch\<close> turns that into a 500) and reads a negative limit as its
  absolute value.\<close>

definition paginate :: "int \<Rightarrow> int \<Rightarrow> 'a list \<Rightarrow> error + 'a list" where
  "paginate skip limit xs =
     (if skip < 0 then Inl (Error 500 ''Internal server error'')
      else Inr (take (nat \<bar>limit\<bar>) (drop (nat skip) xs)))"

section \<open>Login (\<^verbatim>\<open>POST /login\<close>)\<close>

record login_reply =
  login_message :: string
  login_token :: oid
  login_username :: string
  login_userId :: oid
  login_swipeLimit :: int
  login_spinLimit :: int

text \<open>\<^verbatim>\<open>!s\<close> for a request field that is a string or absent.\<close>

definition falsy :: "string option \<Rightarrow> bool" where
  "falsy s = (case s of None \<Rightarrow> True | Some v \<Rightarrow> v = [])"

text \<open>The two conditional assignments and the stamp of lines 134 to 138.\<close>

definition dailyReset :: "time \<Rightarrow> user \<Rightarrow> user" where
  "dailyReset currentDate u =
     (let u1 = (if swipeLimit u < 20 then u\<lparr>swipeLimit := 20\<rparr> else u);
          u2 = (if spinLimit u1 < 1 then u1\<lparr>spinLimit := 1\<rparr> else u1)
      in u2\<lparr>lastLogin := currentDate\<rparr>)"

text \<open>\<^verbatim>\<open>user.save()\<close> sends the paths whose value the route changed on the loaded
  document, as one \<^verbatim>\<open>$set\<close> on the stored document with that id.\<close>

definition saveLimits :: "user \<Rightarrow> user \<Rightarrow> user \<Rightarrow> user" where
  "saveLimits loaded changed d =
     (let d1 = (if swipeLimit changed \<noteq> swipeLimit loaded
                then d\<lparr>swipeLimit := swipeLimit changed\<rparr> else d);
          d2 = (if spinLimit changed \<noteq> spinLimit loaded
                then d1\<lparr>spinLimit := spinLimit changed\<rparr> else d1)
      in if lastLogin changed \<noteq> lastLogin loaded
         then d2\<lparr>lastLogin := lastLogin changed\<rparr> else d2)"

text \<open>\<^verbatim>\<open>bcrypt.compare\<close> and \<^verbatim>\<open>Date.prototype.toDateString\<close> (the local calendar
  date of an instant, as text) belong to the runtime and are parameters.  The token is
  represented by the id its payload carries.\<close>

definition login ::
  "(string \<Rightarrow> string \<Rightarrow> bool) \<Rightarrow> (time \<Rightarrow> string) \<Rightarrow> user list \<Rightarrow>
   string option \<Rightarrow> string option \<Rightarrow> time \<Rightarrow> user list \<times> (error + login_reply)" where
  "login compare toDateString db email' password' currentDate =
     (if falsy email' \<or> falsy password'
      then (db, Inl (Error 400 ''Email and password are required''))
      else
        (case (email', password') of
           (Some e, Some p) \<Rightarrow>
             (case List.find (\<lambda>u. email u = e) db of
                None \<Rightarrow> (db, Inl (Error 400 ''Invalid email or password''))
              | Some u \<Rightarrow>
                  if \<not> compare p (password u)
                  then (db, Inl (Error 400 ''Invalid email or password''))
                  else
                    let fresh = toDateString (lastLogin u) \<noteq> toDateString currentDate;
                        u' = (if fresh then dailyReset currentDate u else u);
                        db' = (if fresh
                               then findByIdAndUpdate db (uid u) (saveLimits u u')
                               else db)
                    in (db', Inr \<lparr>login_message = ''Login successful'', login_token = uid u',
                                  login_username = username u', login_userId = uid u',
                                  login_swipeLimit = swipeLimit u',
                                  login_spinLimit = spinLimit u'\<rparr>))
         | _ \<Rightarrow> (db, Inl (Error 400 ''Email and password are required''))))"

section \<open>Candidate feed (\<^verbatim>\<open>GET /all-users\<close>)\<close>

text \<open>\<^verbatim>\<open>shuffleArray\<close>: the loop runs \<open>i\<close> from the last index down to 1 and swaps
  positions \<open>i\<close> and \<open>j = floor (Math.random() * (i + 1))\<close>.  \<open>rnd k\<close> is the \<open>k\<close>-th
  number \<^verbatim>\<open>Math.random\<close> returns while the request is served.\<close>

fun shuffleLoop :: "(nat \<Rightarrow> real) \<Rightarrow> nat \<Rightarrow> nat \<Rightarrow> 'a list \<Rightarrow> 'a list" where
  "shuffleLoop rnd k 0 xs = xs"
| "shuffleLoop rnd k (Suc n) xs =
     (let i = Suc n; j = nat \<lfloor>rnd k * real (i + 1)\<rfloor>
      in shuffleLoop rnd (Suc k) n (xs[i := xs ! j, j := xs ! i]))"

definition shuffleArray :: "(nat \<Rightarrow> real) \<Rightarrow> nat \<Rightarrow> 'a list \<Rightarrow> 'a list" where
  "shuffleArray rnd k xs = shuffleLoop rnd k (length xs - 1) xs"

definition genderFilter :: "string option \<Rightarrow> string list" where
  "genderFilter i =
     (if i = Some ''Male'' then [''Male'']
      else if i = Some ''Female'' then [''Female'']
      else if i = Some ''Both'' then [''Male'', ''Female'', ''Other'']
      else [])"

text \<open>\<^verbatim>\<open>[...new Set([...liked, ...matches, currentUserId])]\<close>.  The query only asks
  whether an id is in the list, so neither its order nor what the \<^verbatim>\<open>Set\<close> drops
  matters.\<close>

definition excludeIds :: "user \<Rightarrow> oid \<Rightarrow> oid list" where
  "excludeIds currentUser currentUserId =
     remdups (liked currentUser @ matches currentUser @ [currentUserId])"

text \<open>The filter of the two queries.  In the object literal
  \<^verbatim>\<open>{ $ne: null, $ne: '' }\<close> the second key replaces the first, so the name is only
  compared with the empty string.  \<open>withPicture\<close> tells the first query
  (\<^verbatim>\<open>profilePicture: { $ne: null }\<close>) from the second (\<^verbatim>\<open>profilePicture: null\<close>).\<close>

definition feedFilter :: "oid list \<Rightarrow> string list \<Rightarrow> bool \<Rightarrow> user \<Rightarrow> bool" where
  "feedFilter ex gf withPicture u =
     (uid u \<notin> set ex \<and> name u \<noteq> Some '''' \<and> dob u \<noteq> None \<and>
      (case gender u of None \<Rightarrow> False | Some g \<Rightarrow> g \<in> set gf) \<and>
      interestedIn u \<noteq> None \<and>
      (if withPicture then profilePicture u \<noteq> None else profilePicture u = None))"

text \<open>The projection \<^verbatim>\<open>'name profilePicture dob gender interestedIn bio'\<close>, which
  keeps the id.\<close>

record profile =
  p_id :: oid
  p_name :: "string option"
  p_profilePicture :: "string option"
  p_dob :: "time option"
  p_gender :: "string option"
  p_interestedIn :: "string option"
  p_bio :: string

definition project :: "user \<Rightarrow> profile" where
  "project u = \<lparr>p_id = uid u, p_name = name u, p_profilePicture = profilePicture u,
                p_dob = dob u, p_gender = gender u, p_interestedIn = interestedIn u,
                p_bio = bio u\<rparr>"

text \<open>\<^verbatim>\<open>parseInt(q) || d\<close>, where \<open>None\<close> is \<^verbatim>\<open>NaN\<close>.\<close>

definition orDefault :: "int option \<Rightarrow> int \<Rightarrow> int" where
  "orDefault q d = (case q of None \<Rightarrow> d | Some n \<Rightarrow> if n = 0 then d else n)"

definition all_users ::
  "(nat \<Rightarrow> real) \<Rightarrow> user list \<Rightarrow> oid \<Rightarrow> int option \<Rightarrow> int option \<Rightarrow> error + profile list" where
  "all_users rnd db currentUserId qpage qlimit =
     (case findById db currentUserId of
        None \<Rightarrow> Inl (Error 404 ''User not found'')
      | Some currentUser \<Rightarrow>
          let gf = genderFilter (interestedIn currentUser);
              ex = excludeIds currentUser currentUserId;
              page = orDefault qpage 1;
              limit = orDefault qlimit 10;
              skip = (page - 1) * limit
          in (case paginate skip limit (filter (feedFilter ex gf True) db) of
                Inl e \<Rightarrow> Inl e
              | Inr usersWithPicture \<Rightarrow>
                  (case paginate skip limit (filter (feedFilter ex gf False) db) of
                     Inl e \<Rightarrow> Inl e
                   | Inr usersWithoutPicture \<Rightarrow>
                       let shuffledWithPicture = shuffleArray rnd 0 usersWithPicture;
                           shuffledWithoutPicture =
                             shuffleArray rnd (length usersWithPicture - 1) usersWithoutPicture
                       in Inr (map project (shuffledWithPicture @ shuffledWithoutPicture)))))"

section \<open>Swipes (\<^verbatim>\<open>POST /swipe\<close>, \<^verbatim>\<open>POST /spinwin\<close>)\<close>

record swipe_reply =
  swipe_message :: string
  mutual :: bool

text \<open>The update both sides of a match receive: \<^verbatim>\<open>$addToSet\<close> on matches,
  \<^verbatim>\<open>$pull\<close> on liked and disliked.\<close>

definition matchUpdate :: "oid \<Rightarrow> user \<Rightarrow> user" where
  "matchUpdate other u =
     u\<lparr>matches := addToSet (matches u) other, liked := pull (liked u) other,
       disliked := pull (disliked u) other\<rparr>"

text \<open>\<^verbatim>\<open>updateActions\<close> (lines 370 to 376).\<close>

definition updateActions :: "string \<Rightarrow> oid \<Rightarrow> user \<Rightarrow> user" where
  "updateActions direction targetUserId u =
     (if direction = ''right''
      then u\<lparr>liked := addToSet (liked u) targetUserId,
             disliked := pull (disliked u) targetUserId\<rparr>
      else u\<lparr>disliked := addToSet (disliked u) targetUserId\<rparr>)"

text \<open>\<^verbatim>\<open>$inc: { swipeLimit: -1 }\<close>.\<close>

definition decSwipeLimit :: "user \<Rightarrow> user" where
  "decSwipeLimit u = u\<lparr>swipeLimit := toNumber (swipeLimit u - 1)\<rparr>"

definition swipe ::
  "user list \<Rightarrow> oid \<Rightarrow> oid \<Rightarrow> string \<Rightarrow> user list \<times> (error + swipe_reply)" where
  "swipe db currentUserId targetUserId direction =
     (if direction \<notin> set [''left'', ''right'']
      then (db, Inl (Error 400 ''Invalid swipe direction''))
      else
        let plain =
              (case findById db currentUserId of
                 None \<Rightarrow> (db, Inl (Error 404 ''User not found''))
               | Some _ \<Rightarrow>
                   let db1 = findByIdAndUpdate db currentUserId
                               (updateActions direction targetUserId);
                       db2 = findByIdAndUpdate db1 currentUserId decSwipeLimit
                   in (db2, Inr \<lparr>swipe_message = ''Swiped '' @ direction, mutual = False\<rparr>))
        in if direction = ''right''
           then (case findById db targetUserId of
                   None \<Rightarrow> (db, Inl (Error 404 ''Target user not found''))
                 | Some targetUser \<Rightarrow>
                     if currentUserId \<in> set (liked targetUser)
                     then
                       let db1 = findByIdAndUpdate db currentUserId (matchUpdate targetUserId);
                           db2 = findByIdAndUpdate db1 targetUserId (matchUpdate currentUserId);
                           db3 = findByIdAndUpdate db2 currentUserId decSwipeLimit
                       in (db3, Inr \<lparr>swipe_message = ''Matched! Connection created.'',
                                     mutual = True\<rparr>)
                     else plain)
           else plain)"

text \<open>\<^verbatim>\<open>/spinwin\<close>: a winning spin writes both match updates and only then looks at
  what the two calls returned; otherwise the swipe logic runs without touching the
  quota.\<close>

definition spinwin ::
  "user list \<Rightarrow> oid \<Rightarrow> oid \<Rightarrow> bool \<Rightarrow> string \<Rightarrow> user list \<times> (error + swipe_reply)" where
  "spinwin db currentUserId targetUserId isSpinnerWinner direction =
     (if isSpinnerWinner
      then
        let winnerUpdate = findById db currentUserId;
            db1 = findByIdAndUpdate db currentUserId (matchUpdate targetUserId);
            targetUserUpdate = findById db1 targetUserId;
            db2 = findByIdAndUpdate db1 targetUserId (matchUpdate currentUserId)
        in if winnerUpdate = None \<or> targetUserUpdate = None
           then (db2, Inl (Error 404 ''User not found''))
           else (db2, Inr \<lparr>swipe_message = ''Winner connected successfully!'', mutual = True\<rparr>)
      else if direction \<notin> set [''left'', ''right'']
      then (db, Inl (Error 400 ''Invalid swipe direction''))
      else
        let plain =
              (case findById db currentUserId of
                 None \<Rightarrow> (db, Inl (Error 404 ''User not found''))
               | Some _ \<Rightarrow>
                   (findByIdAndUpdate db currentUserId (updateActions direction targetUserId),
                    Inr \<lparr>swipe_message = ''Swiped '' @ direction, mutual = False\<rparr>))
        in if direction = ''right''
           then (case findById db targetUserId of
                   None \<Rightarrow> (db, Inl (Error 404 ''Target user not found''))
                 | Some targetUser \<Rightarrow>
                     if currentUserId \<in> set (liked targetUser)
                     then
                       let db1 = findByIdAndUpdate db currentUserId (matchUpdate targetUserId);
                           db2 = findByIdAndUpdate db1 targetUserId (matchUpdate currentUserId)
                       in (db2, Inr \<lparr>swipe_message = ''Matched! Connection created.'',
                                     mutual = True\<rparr>)
                     else plain)
           else plain)"

text \<open>Sequences of the two requests, served one after the other.\<close>

datatype request = Swipe oid oid string | SpinWin oid oid bool string

fun handle :: "user list \<Rightarrow> request \<Rightarrow> user list" where
  "handle db (Swipe a t d) = fst (swipe db a t d)"
| "handle db (SpinWin a t w d) = fst (spinwin db a t w d)"

definition run :: "user list \<Rightarrow> request list \<Rightarrow> user list" where
  "run db rs = foldl handle db rs"

section \<open>Connecting and pinning (\<^verbatim>\<open>POST /connect-user\<close>, \<^verbatim>\<open>PUT /pin-match\<close>)\<close>

record connect_reply =
  success :: bool
  connect_message :: string

text \<open>\<^verbatim>\<open>authenticate\<close> puts the verified token's payload in \<^verbatim>\<open>req.user\<close>: an
  object, here the list of its id-valued fields.  The only tokens the server signs are
  those of \<^verbatim>\<open>/register\<close> and \<^verbatim>\<open>/login\<close>,
  \<^verbatim>\<open>jwt.sign({ id: user._id }, ...)\<close>.\<close>

type_synonym payload = "(string \<times> oid) list"

definition sign :: "oid \<Rightarrow> payload" where
  "sign i = [(''id'', i)]"

text \<open>The route reads the caller from \<^verbatim>\<open>req.user._id\<close>, where every other route
  reads \<^verbatim>\<open>req.user.id\<close>.\<close>

definition connect_user ::
  "user list \<Rightarrow> payload \<Rightarrow> oid \<Rightarrow> user list \<times> (error + connect_reply)" where
  "connect_user db req_user winnerId =
     (case map_of req_user ''_id'' of
        None \<Rightarrow> (db, Inl (Error 401 ''User not authenticated''))
      | Some currentUserId \<Rightarrow>
          (case (findById db winnerId, findById db currentUserId) of
             (Some winner, Some currentUser) \<Rightarrow>
               let db' = (if currentUserId \<notin> set (matches winner)
                          then findByIdAndUpdate db winnerId
                                 (\<lambda>d. d\<lparr>matches := matches d @ [currentUserId]\<rparr>)
                          else db)
               in (db', Inr \<lparr>success = True,
                             connect_message = ''User connected successfully''\<rparr>)
           | _ \<Rightarrow> (db, Inl (Error 400 ''User(s) not found''))))"





section \<open>Chats (\<^verbatim>\<open>POST /start\<close>, \<^verbatim>\<open>POST /:chatId/message\<close>)\<close>

text \<open>\<^verbatim>\<open>participants: { $all: [a, b] }\<close>.\<close>

definition hasAll :: "oid list \<Rightarrow> chat \<Rightarrow> bool" where
  "hasAll ids c = list_all (\<lambda>i. i \<in> set (participants c)) ids"

text \<open>The target is \<open>None\<close> when \<^verbatim>\<open>ObjectId.isValid\<close> rejects what the body holds.
  \<open>newId\<close> and \<open>now\<close> are the id and the clock value a new document would get.\<close>

definition start_chat ::
  "chat list \<Rightarrow> oid \<Rightarrow> oid option \<Rightarrow> oid \<Rightarrow> time \<Rightarrow> chat list \<times> (error + chat)" where
  "start_chat chats userId target newId now =
     (case target of
        None \<Rightarrow> (chats, Inl (Error 400 ''Valid target user ID is required.''))
      | Some targetUserId \<Rightarrow>
          (case List.find (hasAll [userId, targetUserId]) chats of
             Some c \<Rightarrow> (chats, Inr c)
           | None \<Rightarrow>
               let c = \<lparr>cid = newId, participants = [userId, targetUserId], messages = [],
                        lastMessageAt = now\<rparr>
               in (chats @ [c], Inr c)))"

text \<open>\<^verbatim>\<open>String.prototype.trim\<close> removes white space and line terminators from both
  ends: TAB, LF, VT, FF, CR, SP, NBSP, U+1680, U+2000 to U+200A, LS, PS, U+202F, U+205F,
  U+3000 and U+FEFF.\<close>

definition isWhiteSpace :: "nat \<Rightarrow> bool" where
  "isWhiteSpace c =
     (c \<in> set [9, 10, 11, 12, 13, 32, 160, 5760, 8232, 8233, 8239, 8287, 12288, 65279]
      \<or> (8192 \<le> c \<and> c \<le> 8202))"

definition trim :: "jsstring \<Rightarrow> jsstring" where
  "trim s = rev (dropWhile isWhiteSpace (rev (dropWhile isWhiteSpace s)))"

text \<open>The chat id is \<open>None\<close> when \<^verbatim>\<open>ObjectId.isValid\<close> rejects the path parameter.
  \<open>now\<close> is the \<^verbatim>\<open>Date.now()\<close> of the update; \<open>newMid\<close> and \<open>stamp\<close> are the id and
  the \<^verbatim>\<open>createdAt\<close> default the message schema gives the pushed subdocument, whose
  \<^verbatim>\<open>trim\<close> setter also trims the stored content.\<close>

definition post_message ::
  "chat list \<Rightarrow> oid option \<Rightarrow> jsstring \<Rightarrow> oid \<Rightarrow> oid \<Rightarrow> time \<Rightarrow> time \<Rightarrow>
   chat list \<times> (error + chat_message)" where
  "post_message chats chatId' content' userId newMid now stamp =
     (case chatId' of
        None \<Rightarrow> (chats, Inl (Error 400 ''Invalid chat ID.''))
      | Some chatId \<Rightarrow>
          if trim content' = []
          then (chats, Inl (Error 400 ''Message content cannot be empty.''))
          else
            let sel = (\<lambda>c. cid c = chatId \<and> userId \<in> set (participants c));
                newMessage = \<lparr>mid = newMid, sender = userId, content = trim content',
                               createdAt = stamp, readBy = []\<rparr>
            in (case List.find sel chats of
                  None \<Rightarrow> (chats, Inl (Error 404 ''Chat not found.''))
                | Some _ \<Rightarrow>
                    (findOneAndUpdate sel
                       (\<lambda>c. c\<lparr>messages := messages c @ [newMessage], lastMessageAt := now\<rparr>)
                       chats,
                     Inr newMessage)))"

section \<open>Registration (\<^verbatim>\<open>POST /register\<close>)\<close>







section \<open>Profile updates (\<^verbatim>\<open>PUT /update-profile\<close>, \<^verbatim>\<open>POST /upload-profile-image\<close>)\<close>










section \<open>Every operation on the users collection\<close>




section \<open>Sample documents\<close>

text \<open>Two freshly registered users, for the concrete instances below.\<close>

definition ann :: user where
  "ann = schemaDefaults 1 ''ann@campus.edu'' ''hash:ann-pw'' ''ann_1001'' 0"

definition ben :: user where
  "ben = schemaDefaults 2 ''ben@campus.edu'' ''hash:ben-pw'' ''ben_2002'' 0"

text \<open>Candidates for Ann's feed: Cara and Fay have a picture path, Dana has none, Eve
  is someone Ann has liked.\<close>

definition candidate :: "oid \<Rightarrow> string \<Rightarrow> string option \<Rightarrow> user" where
  "candidate i n pic =
     (schemaDefaults i (n @ ''@campus.edu'') (''hash:'' @ n) (n @ ''_3003'') 0)
       \<lparr>name := Some n, dob := Some 0, gender := Some ''Female'',
        interestedIn := Some ''Male'', profilePicture := pic\<rparr>"

definition campus :: "user list" where
  "campus =
     [ann\<lparr>interestedIn := Some ''Female'', liked := [5], disliked := [3]\<rparr>, ben,
      candidate 3 ''cara'' (Some ''cara.png''), candidate 4 ''dana'' None,
      candidate 5 ''eve'' (Some ''eve.png''), candidate 6 ''fay'' (Some ''fay.png'')]"



text \<open>The chat of Ann and Ben.\<close>

definition annBen :: chat where
  "annBen = \<lparr>cid = 7, participants = [1, 2], messages = [], lastMessageAt = 0\<rparr>"

section \<open>The pinned list and the matches\<close>





section \<open>Facts about the store\<close>

lemma uid_ann [simp]: "uid ann = 1"
  by (simp add: ann_def schemaDefaults_def)

lemma uid_ben [simp]: "uid ben = 2"
  by (simp add: ben_def schemaDefaults_def)

lemma uid_matchUpdate [simp]: "uid (matchUpdate x u) = uid u"
  by (simp add: matchUpdate_def)

lemma uid_updateActions [simp]: "uid (updateActions d x u) = uid u"
  by (simp add: updateActions_def)

lemma uid_decSwipeLimit [simp]: "uid (decSwipeLimit u) = uid u"
  by (simp add: decSwipeLimit_def)

text \<open>Within the safe range the arithmetic is exact; beyond it, it is not.\<close>

lemma toNumber_exact: "\<bar>x\<bar> \<le> 2 ^ 53 \<Longrightarrow> toNumber x = x"
  by (simp add: toNumber_def)

lemma bitlen_zero: "bitlen 0 = 0"
  by (simp add: bitlen.simps)

lemma bitlen_pos: "0 < n \<Longrightarrow> bitlen n = Suc (bitlen (n div 2))"
  by (subst bitlen.simps) simp

lemma toNumber_rounds: "toNumber (10000000000000000 - 1) = 10000000000000000"
  by (simp add: toNumber_def roundHalfEven_def bitlen_zero bitlen_pos)

lemma saveLimits_keeps [simp]:
  "uid (saveLimits u v d) = uid d"
  "matches (saveLimits u v d) = matches d"
  "pinnedMatches (saveLimits u v d) = pinnedMatches d"
  by (simp_all add: saveLimits_def Let_def)

text \<open>Reading a document after an update that keeps ids in place.\<close>

lemma findById_update:
  assumes "\<And>d. uid (f d) = uid d"
  shows "findById (findByIdAndUpdate db i f) j =
         (if i = j then map_option f (findById db i) else findById db j)"
  using assms unfolding findById_def findByIdAndUpdate_def
  by (induction db) auto

lemma set_addToSet [simp]: "set (addToSet xs x) = insert x (set xs)"
  by (auto simp: addToSet_def)

lemma set_pull [simp]: "set (pull xs x) = set xs - {x}"
  by (auto simp: pull_def)

section \<open>Mutual likes\<close>

text \<open>
  Claim C3.  When user \<open>a\<close> and user \<open>b\<close> both exist and \<open>a\<close>'s liked list already holds
  \<open>b\<close>, the right swipe of \<open>b\<close> on \<open>a\<close> answers with \<open>mutual = True\<close>.  Afterwards \<open>b\<close>'s
  document is the old one with \<open>a\<close> appended to matches unless already there, every
  occurrence of \<open>a\<close> taken out of liked and of disliked, and the swipe limit one lower
  (exactly so while it stays within \<open>2 ^ 53\<close>, rounded as a double beyond);
  \<open>a\<close>'s document is the old one with \<open>b\<close> appended to matches unless already there and
  every occurrence of \<open>b\<close> taken out of liked and of disliked; every other document is
  as it was.
\<close>

theorem swipe_right_mutual_match:
  assumes "findById db a = Some ua" and "b \<in> set (liked ua)" and "findById db b = Some ub"
  shows "\<exists>db'.
           swipe db b a ''right'' =
             (db', Inr \<lparr>swipe_message = ''Matched! Connection created.'', mutual = True\<rparr>) \<and>
           findById db' b =
             Some (ub\<lparr>matches := (if a \<in> set (matches ub) then matches ub else matches ub @ [a]),
                      liked := filter (\<lambda>x. x \<noteq> a) (liked ub),
                      disliked := filter (\<lambda>x. x \<noteq> a) (disliked ub),
                      swipeLimit := (if \<bar>swipeLimit ub - 1\<bar> \<le> 2 ^ 53 then swipeLimit ub - 1
                                     else toNumber (swipeLimit ub - 1))\<rparr>) \<and>
           (a \<noteq> b \<longrightarrow>
              findById db' a =
                Some (ua\<lparr>matches := (if b \<in> set (matches ua) then matches ua else matches ua @ [b]),
                         liked := filter (\<lambda>x. x \<noteq> b) (liked ua),
                         disliked := filter (\<lambda>x. x \<noteq> b) (disliked ua)\<rparr>)) \<and>
           (\<forall>j. j \<noteq> a \<and> j \<noteq> b \<longrightarrow> findById db' j = findById db j)"
proof (cases "a = b")
  case True
  with assms have same: "ub = ua" by simp
  from assms True same show ?thesis
    by (simp add: swipe_def Let_def findById_update matchUpdate_def decSwipeLimit_def
        addToSet_def pull_def toNumber_exact)
next
  case False
  with assms show ?thesis
    by (simp add: swipe_def Let_def findById_update matchUpdate_def decSwipeLimit_def
        addToSet_def pull_def toNumber_exact)
qed

lemmas swipe_eval = swipe_def findById_def findByIdAndUpdate_def Let_def matchUpdate_def
  updateActions_def decSwipeLimit_def toNumber_def addToSet_def pull_def ann_def ben_def
  schemaDefaults_def

text \<open>The instance: Ann has liked 3 and Ben, disliked 4 and matched 5; Ben has liked 3,
  disliked Ann and 6, and matched 7.  Ben swipes right on Ann.\<close>

theorem swipe_right_mutual_match_witness:
  "findById [ann\<lparr>liked := [3, 2], disliked := [4], matches := [5]\<rparr>,
             ben\<lparr>liked := [3], disliked := [1, 6], matches := [7]\<rparr>] 1 =
     Some (ann\<lparr>liked := [3, 2], disliked := [4], matches := [5]\<rparr>) \<and>
   2 \<in> set (liked (ann\<lparr>liked := [3, 2], disliked := [4], matches := [5]\<rparr>)) \<and>
   findById [ann\<lparr>liked := [3, 2], disliked := [4], matches := [5]\<rparr>,
             ben\<lparr>liked := [3], disliked := [1, 6], matches := [7]\<rparr>] 2 =
     Some (ben\<lparr>liked := [3], disliked := [1, 6], matches := [7]\<rparr>) \<and>
   swipe [ann\<lparr>liked := [3, 2], disliked := [4], matches := [5]\<rparr>,
          ben\<lparr>liked := [3], disliked := [1, 6], matches := [7]\<rparr>] 2 1 ''right'' =
     ([ann\<lparr>liked := [3], disliked := [4], matches := [5, 2]\<rparr>,
       ben\<lparr>liked := [3], disliked := [6], matches := [7, 1], swipeLimit := 9\<rparr>],
      Inr \<lparr>swipe_message = ''Matched! Connection created.'', mutual = True\<rparr>)"
proof -
  let ?a = "ann\<lparr>liked := [3, 2], disliked := [4], matches := [5]\<rparr>"
  let ?b = "ben\<lparr>liked := [3], disliked := [1, 6], matches := [7]\<rparr>"
  have h1: "findById [?a, ?b] 1 = Some ?a" by (simp add: findById_def)
  have h2: "2 \<in> set (liked ?a)" by simp
  have h3: "findById [?a, ?b] 2 = Some ?b" by (simp add: findById_def)
  from swipe_right_mutual_match [OF h1 h2 h3] obtain db' where
    r: "swipe [?a, ?b] 2 1 ''right'' =
          (db', Inr \<lparr>swipe_message = ''Matched! Connection created.'', mutual = True\<rparr>)"
    by blast
  have e: "fst (swipe [?a, ?b] 2 1 ''right'') =
             [ann\<lparr>liked := [3], disliked := [4], matches := [5, 2]\<rparr>,
              ben\<lparr>liked := [3], disliked := [6], matches := [7, 1], swipeLimit := 9\<rparr>]"
    by (simp add: swipe_eval)
  from r e have "db' = [ann\<lparr>liked := [3], disliked := [4], matches := [5, 2]\<rparr>,
                        ben\<lparr>liked := [3], disliked := [6], matches := [7, 1], swipeLimit := 9\<rparr>]"
    by simp
  with r h1 h2 h3 show ?thesis by simp
qed

section \<open>Left swipes\<close>

text \<open>What a left swipe of a stored user does: the target joins the disliked list, the
  quota is decremented, the reply is not mutual, and the liked list is as it was.\<close>

lemma swipe_left_effect:
  assumes "findById db a = Some u"
  shows "\<exists>db'. swipe db a t ''left'' = (db', Inr \<lparr>swipe_message = ''Swiped left'', mutual = False\<rparr>) \<and>
           findById db' a =
             Some (u\<lparr>disliked := addToSet (disliked u) t,
                     swipeLimit := toNumber (swipeLimit u - 1)\<rparr>)"
  using assms
  by (simp add: swipe_def Let_def findById_update updateActions_def decSwipeLimit_def)

text \<open>
  Claim C1 (a target is never in a user's liked and disliked lists at once, after any
  sequence of swipes and spins) fails on the code: Ann swipes right on Ben, who has not
  liked her, and then left.  Both swipes succeed, and Ben ends in both of Ann's lists,
  because the left branch of \<open>updateActions\<close> does not pull from liked.
\<close>

theorem swipe_right_then_left_overlap:
  "run [ann, ben] [Swipe 1 2 ''right'', Swipe 1 2 ''left''] =
     [ann\<lparr>liked := [2], disliked := [2], swipeLimit := 8\<rparr>, ben]"
  by (simp add: run_def swipe_eval)

text \<open>
  Claim C2 (a left swipe adds the target to disliked, removes it from liked, lowers the
  quota by one and is not mutual) fails on the code in its second part: with Ben in
  Ann's liked list, her left swipe on him leaves him there.
\<close>

theorem swipe_left_keeps_liked:
  "swipe [ann\<lparr>liked := [2]\<rparr>, ben] 1 2 ''left'' =
     ([ann\<lparr>liked := [2], disliked := [2], swipeLimit := 9\<rparr>, ben],
      Inr \<lparr>swipe_message = ''Swiped left'', mutual = False\<rparr>)"
  by (simp add: swipe_eval)

section \<open>The candidate feed\<close>

lemma random_index:
  assumes "0 \<le> r" and "r < 1"
  shows "nat \<lfloor>r * real (Suc n + 1)\<rfloor> \<le> Suc n"
proof -
  from assms have "r * real (Suc n + 1) < real (Suc n + 1)"
    by simp
  then have "\<lfloor>r * real (Suc n + 1)\<rfloor> < int (Suc n + 1)"
    by (simp add: floor_less_iff)
  then show ?thesis by linarith
qed

lemma set_shuffleLoop:
  assumes "\<forall>k. 0 \<le> rnd k \<and> rnd k < 1" and "n < length xs"
  shows "set (shuffleLoop rnd k n xs) = set xs"
  using assms(2)
proof (induction n arbitrary: k xs)
  case 0
  then show ?case by simp
next
  case (Suc n)
  let ?j = "nat \<lfloor>rnd k * real (Suc n + 1)\<rfloor>"
  from assms(1) have "?j \<le> Suc n" by (intro random_index) auto
  with Suc.prems have j: "?j < length xs" by linarith
  let ?ys = "xs[Suc n := xs ! ?j, ?j := xs ! Suc n]"
  from Suc.prems j have "set ?ys = set xs" by (simp add: set_swap)
  moreover from Suc.prems have "n < length ?ys" by simp
  ultimately show ?case using Suc.IH [of ?ys "Suc k"] by (simp add: Let_def)
qed

lemma set_shuffleArray:
  assumes "\<forall>k. 0 \<le> rnd k \<and> rnd k < 1"
  shows "set (shuffleArray rnd k xs) = set xs"
proof (cases xs)
  case Nil
  then show ?thesis by (simp add: shuffleArray_def)
next
  case (Cons y ys)
  then have "length xs - 1 < length xs" by simp
  from set_shuffleLoop [OF assms this] show ?thesis by (simp add: shuffleArray_def)
qed

lemma paginate_subset: "paginate s l xs = Inr ys \<Longrightarrow> set ys \<subseteq> set xs"
  by (auto simp: paginate_def split: if_splits dest: in_set_takeD in_set_dropD)

lemma filter_update_excluded:
  assumes "\<And>d. uid (f d) = uid d" and "\<And>d. uid d = i \<Longrightarrow> \<not> Q d" and "\<And>d. uid d = i \<Longrightarrow> \<not> Q (f d)"
  shows "filter Q (findByIdAndUpdate db i f) = filter Q db"
  unfolding findByIdAndUpdate_def using assms by (induction db) auto

text \<open>
  Claim C4.  Whenever \<^verbatim>\<open>Math.random\<close> keeps to its range, no entry of the feed is the
  requester, an id of the requester's liked list or an id of the requester's matches;
  and the requester's disliked list plays no part: whatever it holds, the feed is the
  same, so a disliked user who passes the filter is returned.
\<close>

theorem all_users_exclusion:
  assumes "\<forall>k. 0 \<le> rnd k \<and> rnd k < 1"
    and "findById db cur = Some me"
    and "all_users rnd db cur qpage qlimit = Inr feed"
  shows "(\<forall>p \<in> set feed. p_id p \<noteq> cur \<and> p_id p \<notin> set (liked me) \<and> p_id p \<notin> set (matches me)) \<and>
         (\<forall>ds. all_users rnd (findByIdAndUpdate db cur (\<lambda>u. u\<lparr>disliked := ds\<rparr>)) cur qpage qlimit
                = Inr feed)"
proof -
  let ?gf = "genderFilter (interestedIn me)"
  let ?ex = "excludeIds me cur"
  let ?skip = "(orDefault qpage 1 - 1) * orDefault qlimit 10"
  let ?lim = "orDefault qlimit 10"
  let ?q = "\<lambda>b. paginate ?skip ?lim (filter (feedFilter ?ex ?gf b) db)"
  from assms(2,3) obtain us1 us2 where q1: "?q True = Inr us1" and q2: "?q False = Inr us2"
    and feed: "feed = map project (shuffleArray rnd 0 us1 @ shuffleArray rnd (length us1 - 1) us2)"
    by (auto simp: all_users_def Let_def split: sum.splits)
  have ex: "uid u \<notin> set ?ex" if "u \<in> set us1 \<union> set us2" for u
    using that paginate_subset [OF q1] paginate_subset [OF q2]
    by (auto simp: feedFilter_def)
  have first: "\<forall>p \<in> set feed. p_id p \<noteq> cur \<and> p_id p \<notin> set (liked me) \<and> p_id p \<notin> set (matches me)"
  proof
    fix p assume "p \<in> set feed"
    with feed obtain u where "u \<in> set us1 \<union> set us2" and "p = project u"
      by (auto simp: set_shuffleArray [OF assms(1)])
    with ex [of u] show "p_id p \<noteq> cur \<and> p_id p \<notin> set (liked me) \<and> p_id p \<notin> set (matches me)"
      by (auto simp: excludeIds_def project_def)
  qed
  have second: "all_users rnd (findByIdAndUpdate db cur (\<lambda>u. u\<lparr>disliked := ds\<rparr>)) cur qpage qlimit
                = Inr feed" for ds
  proof -
    let ?f = "\<lambda>u::user. u\<lparr>disliked := ds\<rparr>"
    let ?db = "findByIdAndUpdate db cur ?f"
    have me': "findById ?db cur = Some (?f me)"
      using assms(2) by (simp add: findById_update)
    have same: "filter (feedFilter ?ex ?gf b) ?db = filter (feedFilter ?ex ?gf b) db" for b
      by (rule filter_update_excluded) (auto simp: feedFilter_def excludeIds_def)
    have "excludeIds (?f me) cur = ?ex" by (simp add: excludeIds_def)
    with me' same q1 q2 feed show ?thesis
      by (simp add: all_users_def Let_def)
  qed
  from first second show ?thesis by blast
qed

lemmas feed_eval = all_users_def findById_def ann_def ben_def schemaDefaults_def candidate_def
  campus_def genderFilter_def excludeIds_def feedFilter_def paginate_def orDefault_def
  shuffleArray_def project_def Let_def

text \<open>The instance: Ann looks for women, has liked Eve and disliked Cara.  Her feed is
  Fay and Cara (swapped by the shuffle), then Dana; Eve is missing, and Cara, whom she
  disliked, is there.\<close>

theorem all_users_exclusion_witness:
  "findById campus 1 = Some (ann\<lparr>interestedIn := Some ''Female'', liked := [5], disliked := [3]\<rparr>) \<and>
   all_users (\<lambda>k. 1 / 4) campus 1 None None =
     Inr [project (candidate 6 ''fay'' (Some ''fay.png'')),
          project (candidate 3 ''cara'' (Some ''cara.png'')),
          project (candidate 4 ''dana'' None)] \<and>
   list_all (\<lambda>p. p_id p \<noteq> 1 \<and> p_id p \<noteq> 5)
     [project (candidate 6 ''fay'' (Some ''fay.png'')),
      project (candidate 3 ''cara'' (Some ''cara.png'')),
      project (candidate 4 ''dana'' None)] \<and>
   p_id (project (candidate 3 ''cara'' (Some ''cara.png''))) = 3 \<and>
   disliked (ann\<lparr>interestedIn := Some ''Female'', liked := [5], disliked := [3]\<rparr>) = [3] \<and>
   all_users (\<lambda>k. 1 / 4) (findByIdAndUpdate campus 1 (\<lambda>u. u\<lparr>disliked := []\<rparr>)) 1 None None =
     Inr [project (candidate 6 ''fay'' (Some ''fay.png'')),
          project (candidate 3 ''cara'' (Some ''cara.png'')),
          project (candidate 4 ''dana'' None)]"
proof -
  let ?me = "ann\<lparr>interestedIn := Some ''Female'', liked := [5], disliked := [3]\<rparr>"
  let ?feed = "[project (candidate 6 ''fay'' (Some ''fay.png'')),
                project (candidate 3 ''cara'' (Some ''cara.png'')),
                project (candidate 4 ''dana'' None)]"
  have r: "\<forall>k::nat. 0 \<le> (\<lambda>k. 1 / 4 :: real) k \<and> (\<lambda>k. 1 / 4 :: real) k < 1" by simp
  have f: "findById campus 1 = Some ?me" by (simp add: findById_def campus_def)
  have e: "all_users (\<lambda>k. 1 / 4) campus 1 None None = Inr ?feed" by (simp add: feed_eval)
  have l: "liked ?me = [5]" "matches ?me = []" by (simp_all add: ann_def schemaDefaults_def)
  have i: "p_id (project (candidate 3 ''cara'' (Some ''cara.png''))) = 3"
    by (simp add: project_def candidate_def schemaDefaults_def)
  from all_users_exclusion [OF r f e] have
    "\<forall>p\<in>set ?feed. p_id p \<noteq> 1 \<and> p_id p \<notin> set (liked ?me) \<and> p_id p \<notin> set (matches ?me)"
    and "all_users (\<lambda>k. 1 / 4) (findByIdAndUpdate campus 1 (\<lambda>u. u\<lparr>disliked := []\<rparr>)) 1 None None
         = Inr ?feed"
    by blast+
  with f e i l show ?thesis by (simp add: list_all_iff)
qed

section \<open>Pinning\<close>
































section \<open>Connecting users\<close>

text \<open>
  Claim C10 (a successful connect-user adds the caller to the winner's matches and
  changes nothing else, so it can establish a one-sided match) fails on the code: with
  any token the server has signed, for any caller and any winner, the route answers 401
  and writes nothing, because the payload has the field \<^verbatim>\<open>id\<close> and the route reads
  \<^verbatim>\<open>_id\<close>.
\<close>

theorem connect_user_signed_token_rejected:
  "connect_user db (sign i) winnerId = (db, Inl (Error 401 ''User not authenticated''))"
  by (simp add: connect_user_def sign_def)

section \<open>Chats\<close>

lemma hasAll_swap: "hasAll [a, b] c = hasAll [b, a] c"
  by (auto simp: hasAll_def)

lemma find_snoc_new: "List.find P xs = None \<Longrightarrow> P x \<Longrightarrow> List.find P (xs @ [x]) = Some x"
  by (induction xs) (auto split: if_splits)

text \<open>
  Claim C6.  Starting the chat of \<open>a\<close> and \<open>b\<close> always succeeds with some chat; asking
  again, in the same order or with the two users exchanged, returns that very chat and
  leaves the collection as the first call left it.
\<close>

theorem start_chat_idempotent:
  "\<exists>c. start_chat chats a (Some b) n1 t1 = (fst (start_chat chats a (Some b) n1 t1), Inr c) \<and>
        start_chat (fst (start_chat chats a (Some b) n1 t1)) a (Some b) n2 t2 =
          (fst (start_chat chats a (Some b) n1 t1), Inr c) \<and>
        start_chat (fst (start_chat chats a (Some b) n1 t1)) b (Some a) n3 t3 =
          (fst (start_chat chats a (Some b) n1 t1), Inr c)"
proof (cases "List.find (hasAll [a, b]) chats")
  case None
  let ?c = "\<lparr>cid = n1, participants = [a, b], messages = [], lastMessageAt = t1\<rparr>"
  have "hasAll [a, b] ?c" by (simp add: hasAll_def)
  with None have "List.find (hasAll [a, b]) (chats @ [?c]) = Some ?c"
    by (rule find_snoc_new)
  moreover from this have "List.find (hasAll [b, a]) (chats @ [?c]) = Some ?c"
    using hasAll_swap [of b a] by (simp cong: find_cong)
  ultimately show ?thesis using None
    by (simp add: start_chat_def Let_def)
next
  case (Some c)
  moreover from this have "List.find (hasAll [b, a]) chats = Some c"
    using hasAll_swap [of b a] by (simp cong: find_cong)
  ultimately show ?thesis
    by (simp add: start_chat_def)
qed

lemma trim_blank:
  assumes "list_all isWhiteSpace s"
  shows "trim s = []"
proof -
  from assms have blank: "dropWhile isWhiteSpace s = []"
    by (induction s) auto
  show ?thesis unfolding trim_def blank by simp
qed

text \<open>
  Claim C7.  A message whose content is empty or made of white space only is answered
  with status 400, and the chat collection, with every chat's messages and
  \<open>lastMessageAt\<close>, is returned untouched.
\<close>

theorem post_message_blank_rejected:
  assumes "list_all isWhiteSpace content'"
  shows "post_message chats chatId content' userId newMid now stamp =
           (chats, Inl (Error 400 (if chatId = None then ''Invalid chat ID.''
                                   else ''Message content cannot be empty.'')))"
  using trim_blank [OF assms]
  by (simp add: post_message_def split: option.splits)

text \<open>The instance: four blanks (space, tab, line feed, U+2003) sent to the chat of Ann
  and Ben, and the empty string.\<close>

theorem post_message_blank_rejected_witness:
  "list_all isWhiteSpace [32, 9, 10, 8195] \<and>
   post_message [annBen] (Some 7) [32, 9, 10, 8195] 1 50 1000 1000 =
     ([annBen], Inl (Error 400 ''Message content cannot be empty.'')) \<and>
   list_all isWhiteSpace [] \<and>
   post_message [annBen] (Some 7) [] 1 50 1000 1000 =
     ([annBen], Inl (Error 400 ''Message content cannot be empty.''))"
proof -
  have h: "list_all isWhiteSpace [32, 9, 10, 8195]" by (simp add: isWhiteSpace_def)
  have h0: "list_all isWhiteSpace []" by simp
  from post_message_blank_rejected [OF h, of "[annBen]" "Some 7" 1 50 1000 1000]
       post_message_blank_rejected [OF h0, of "[annBen]" "Some 7" 1 50 1000 1000] h
  show ?thesis by simp
qed

section \<open>The daily reset at login\<close>

lemma find_email_id:
  assumes "distinct (map uid db)" and "List.find P db = Some u"
  shows "findById db (uid u) = Some u"
  using assms unfolding findById_def
proof (induction db)
  case Nil
  then show ?case by simp
next
  case (Cons d ds)
  show ?case
  proof (cases "P d")
    case True
    with Cons.prems show ?thesis by simp
  next
    case False
    with Cons.prems have f: "List.find P ds = Some u" and dd: "distinct (map uid ds)"
      and nd: "uid d \<notin> uid ` set ds"
      by auto
    from f have "u \<in> set ds" by (auto simp: find_Some_iff)
    with nd have "uid d \<noteq> uid u" by auto
    with Cons.IH [OF dd f] show ?thesis by simp
  qed
qed

text \<open>
  Claim C9.  In a collection with unique ids, a successful login on a calendar date other
  than that of the stored \<open>lastLogin\<close> raises the swipe limit to at least 20 and the spin
  limit to at least 1, lowers neither, and stamps \<open>lastLogin\<close>; on the same calendar
  date the collection is unchanged.  The reply carries the limits as stored afterwards.
\<close>

theorem login_daily_reset:
  assumes "distinct (map uid db)"
    and "login compare toDateString db email' password' now = (db', Inr r)"
  shows "\<exists>e u. email' = Some e \<and> List.find (\<lambda>d. email d = e) db = Some u \<and>
           (if toDateString (lastLogin u) \<noteq> toDateString now
            then findById db' (uid u) =
                   Some (u\<lparr>swipeLimit := max (swipeLimit u) 20, spinLimit := max (spinLimit u) 1,
                          lastLogin := now\<rparr>) \<and>
                 (\<forall>j. j \<noteq> uid u \<longrightarrow> findById db' j = findById db j) \<and>
                 login_swipeLimit r = max (swipeLimit u) 20 \<and>
                 login_spinLimit r = max (spinLimit u) 1
            else db' = db \<and> login_swipeLimit r = swipeLimit u \<and> login_spinLimit r = spinLimit u)"
proof -
  from assms(2) obtain e p where e: "email' = Some e" and p: "password' = Some p"
    by (cases email'; cases password') (auto simp: login_def falsy_def split: if_splits)
  from assms(2) e p obtain u where u: "List.find (\<lambda>d. email d = e) db = Some u"
    by (cases "List.find (\<lambda>d. email d = e) db") (auto simp: login_def split: if_splits)
  have id: "findById db (uid u) = Some u"
    by (rule find_email_id [OF assms(1) u])
  have keep: "uid (saveLimits u v d) = uid d" for v d
    by simp
  have saved: "saveLimits u (dailyReset now u) u = dailyReset now u"
    by (simp add: saveLimits_def dailyReset_def Let_def)
  have reset: "dailyReset now u =
                 u\<lparr>swipeLimit := max (swipeLimit u) 20, spinLimit := max (spinLimit u) 1,
                   lastLogin := now\<rparr>"
    by (simp add: dailyReset_def Let_def max_def)
  show ?thesis
  proof (cases "toDateString (lastLogin u) \<noteq> toDateString now")
    case True
    with assms(2) e p u
    have "db' = findByIdAndUpdate db (uid u) (saveLimits u (dailyReset now u))"
      and "r = \<lparr>login_message = ''Login successful'', login_token = uid (dailyReset now u),
                login_username = username (dailyReset now u), login_userId = uid (dailyReset now u),
                login_swipeLimit = swipeLimit (dailyReset now u),
                login_spinLimit = spinLimit (dailyReset now u)\<rparr>"
      by (auto simp: login_def Let_def split: if_splits)
    with True e u id show ?thesis
      by (simp add: findById_update [OF keep] saved [unfolded reset] reset)
  next
    case False
    with assms(2) e p u show ?thesis
      by (auto simp: login_def Let_def split: if_splits)
  qed
qed

text \<open>The instance: Ann, last seen on the first of January, logs in a day later; her
  swipe limit goes from 10 to 20 and her spin limit stays 5.\<close>

theorem login_daily_reset_witness:
  "distinct (map uid [ann, ben]) \<and>
   login (\<lambda>p h. h = ''hash:'' @ p) (\<lambda>t. if t < 86400000 then ''Thu Jan 01 1970'' else ''Fri Jan 02 1970'')
     [ann, ben] (Some ''ann@campus.edu'') (Some ''ann-pw'') 90000000 =
     ([ann\<lparr>swipeLimit := 20, lastLogin := 90000000\<rparr>, ben],
      Inr \<lparr>login_message = ''Login successful'', login_token = 1, login_username = ''ann_1001'',
           login_userId = 1, login_swipeLimit = 20, login_spinLimit = 5\<rparr>) \<and>
   findById [ann\<lparr>swipeLimit := 20, lastLogin := 90000000\<rparr>, ben] 1 =
     Some (ann\<lparr>swipeLimit := max (swipeLimit ann) 20, spinLimit := max (spinLimit ann) 1,
               lastLogin := 90000000\<rparr>)"
proof -
  let ?tds = "\<lambda>t::int. if t < 86400000 then ''Thu Jan 01 1970'' else ''Fri Jan 02 1970''"
  have d: "distinct (map uid [ann, ben])" by simp
  have e: "login (\<lambda>p h. h = ''hash:'' @ p) ?tds [ann, ben] (Some ''ann@campus.edu'') (Some ''ann-pw'') 90000000 =
     ([ann\<lparr>swipeLimit := 20, lastLogin := 90000000\<rparr>, ben],
      Inr \<lparr>login_message = ''Login successful'', login_token = 1, login_username = ''ann_1001'',
           login_userId = 1, login_swipeLimit = 20, login_spinLimit = 5\<rparr>)"
    by (simp add: login_def falsy_def dailyReset_def saveLimits_def findByIdAndUpdate_def Let_def
        ann_def ben_def schemaDefaults_def)
  have f: "List.find (\<lambda>d. email d = ''ann@campus.edu'') [ann, ben] = Some ann"
    "lastLogin ann = 0"
    by (simp_all add: ann_def schemaDefaults_def)
  from login_daily_reset [OF d e] d e f show ?thesis
    by auto
qed

end
